theory Spec2Isabelle
  imports Complex_Main "HOL-Library.Char_ord" "HOL-Library.List_Lexorder"
    "HOL-Library.Product_Lexorder"
begin

section \<open>Tables of the fuel-retail dashboard (utils.py)\<close>

text \<open>
  The pandas tables of \<^verbatim>\<open>utils.py\<close> are lists of records, one record per row, in row
  order. A float column is a column of \<open>rat option\<close>: \<open>None\<close> is NaN (missing) and
  \<open>Some x\<close> a finite number, computed exactly (the rounding of binary floating point is
  not modelled). Where the source divides by a number that may be zero, the result is an
  \<open>fval\<close>, which also has the two infinities.

  A raw cell read from a CSV file is a \<open>cell\<close>: \<open>Num x\<close> is a cell that
  \<^verbatim>\<open>pd.to_numeric\<close> reads as the number \<open>x\<close>, \<open>Str s\<close> a cell whose text it
  cannot read as a number, \<open>Missing\<close> an empty cell.
\<close>

datatype cell = Missing | Num rat | Str string

datatype fval = Fin rat | PInf | NInf | NaN

text \<open>\<^verbatim>\<open>pd.to_numeric(..., errors="coerce")\<close> on one cell.\<close>

fun to_numeric :: "cell \<Rightarrow> rat option" where
  "to_numeric Missing = None"
| "to_numeric (Num x) = Some x"
| "to_numeric (Str s) = None"

text \<open>
  A station row with the columns the source names. State names are strings; the
  station id and the municipality may be missing. The price columns hold raw cells in the
  station table and floats in the price table, hence the type parameter.
\<close>

record 'p row =
  place_id :: "string option"
  state_name :: string
  municipality_name :: "string option"
  regular_price :: 'p
  premium_price :: 'p
  diesel_price :: 'p

record pop_row =
  entidad_federativa :: string
  population_2024 :: cell

text \<open>
  A sales-volume row: year, state and liters sold. The sub-product column is left out:
  the tables modelled below total the volume of a state over all sub-products.
\<close>

record 'v vol_row =
  anio :: int
  vol_entidad :: string
  volumen_vendido :: 'v

datatype price_column = RegularCol | PremiumCol | DieselCol

fun get_price :: "price_column \<Rightarrow> 'p row \<Rightarrow> 'p" where
  "get_price RegularCol r = regular_price r"
| "get_price PremiumCol r = premium_price r"
| "get_price DieselCol r = diesel_price r"

fun set_price :: "price_column \<Rightarrow> 'p \<Rightarrow> 'p row \<Rightarrow> 'p row" where
  "set_price RegularCol v r = r\<lparr>regular_price := v\<rparr>"
| "set_price PremiumCol v r = r\<lparr>premium_price := v\<rparr>"
| "set_price DieselCol v r = r\<lparr>diesel_price := v\<rparr>"

subsection \<open>Series helpers\<close>

text \<open>\<^verbatim>\<open>Series.unique()\<close>: the distinct values in order of first appearance.\<close>

definition unique :: "'a list \<Rightarrow> 'a list" where
  "unique xs = rev (remdups (rev xs))"

text \<open>The non-missing values of a float column, in row order.\<close>

fun dropna :: "'a option list \<Rightarrow> 'a list" where
  "dropna [] = []"
| "dropna (None # xs) = dropna xs"
| "dropna (Some x # xs) = x # dropna xs"

text \<open>\<^verbatim>\<open>Series.nunique()\<close>: the number of distinct non-missing values.\<close>

definition nunique :: "'a option list \<Rightarrow> nat" where
  "nunique col = length (unique (dropna col))"

text \<open>\<^verbatim>\<open>Series.mean()\<close>: the mean of the non-missing values, NaN when there is none.\<close>

definition mean :: "rat option list \<Rightarrow> rat option" where
  "mean col =
     (let xs = dropna col
      in if xs = [] then None else Some (sum_list xs / of_nat (length xs)))"

text \<open>\<^verbatim>\<open>Series.sum()\<close>: the sum of the non-missing values, 0 when there is none.\<close>

definition series_sum :: "rat option list \<Rightarrow> rat" where
  "series_sum col = sum_list (dropna col)"

text \<open>Comparisons of floats: any comparison with NaN is false.\<close>

fun nan_lt :: "rat option \<Rightarrow> rat option \<Rightarrow> bool" where
  "nan_lt (Some x) (Some y) = (x < y)"
| "nan_lt _ _ = False"

fun nan_le :: "rat option \<Rightarrow> rat option \<Rightarrow> bool" where
  "nan_le (Some x) (Some y) = (x \<le> y)"
| "nan_le _ _ = False"

text \<open>
  Python's built-in \<^verbatim>\<open>min(a, b)\<close> and \<^verbatim>\<open>max(a, b)\<close>: the first argument is
  kept unless the second compares strictly smaller (larger).
\<close>

definition py_min :: "rat option \<Rightarrow> rat option \<Rightarrow> rat option" where
  "py_min a b = (if nan_lt b a then b else a)"

definition py_max :: "rat option \<Rightarrow> rat option \<Rightarrow> rat option" where
  "py_max a b = (if nan_lt a b then b else a)"

subsection \<open>Station Reconciler: \<^verbatim>\<open>prepare_station_data\<close>\<close>

text \<open>
  \<^verbatim>\<open>df.drop_duplicates(subset=["place_id"])\<close>: the first row of every station id is
  kept, in row order. pandas compares a missing id equal to a missing id, so of the rows
  without an id only the first is kept.
\<close>

fun drop_duplicates_from :: "string option list \<Rightarrow> 'p row list \<Rightarrow> 'p row list" where
  "drop_duplicates_from seen [] = []"
| "drop_duplicates_from seen (r # rs) =
     (if place_id r \<in> set seen then drop_duplicates_from seen rs
      else r # drop_duplicates_from (place_id r # seen) rs)"

definition drop_duplicates :: "'p row list \<Rightarrow> 'p row list" where
  "drop_duplicates df = drop_duplicates_from [] df"

text \<open>The row a left join produces for a state without any station row.\<close>

definition placeholder :: "string \<Rightarrow> cell row" where
  "placeholder s =
     \<lparr>place_id = None, state_name = s, municipality_name = None,
      regular_price = Missing, premium_price = Missing, diesel_price = Missing\<rparr>"

text \<open>
  \<^verbatim>\<open>df_states_only.merge(df_gas, on="state_name", how="left")\<close>: for each state of the
  left table, in its order, the station rows of that state in their order, or one
  placeholder row.
\<close>

definition merge_states :: "string list \<Rightarrow> cell row list \<Rightarrow> cell row list" where
  "merge_states states df =
     concat (map (\<lambda>s. let ms = filter (\<lambda>r. state_name r = s) df
                      in if ms = [] then [placeholder s] else ms) states)"

text \<open>
  The columns the source adds when they are absent are fields of the record here, so the
  loop over the column names has nothing left to do.
\<close>

definition prepare_station_data :: "cell row list \<Rightarrow> pop_row list \<Rightarrow> cell row list" where
  "prepare_station_data df_gas df_pop =
     (let df_gas' = drop_duplicates df_gas;
          all_states = unique (map entidad_federativa df_pop)
      in merge_states all_states df_gas')"

subsection \<open>Price Cleaner: \<^verbatim>\<open>remove_price_outliers\<close>, \<^verbatim>\<open>prepare_price_data\<close>\<close>

text \<open>
  \<^verbatim>\<open>Series.quantile(q)\<close> with linear interpolation, for \<open>0 \<le> q \<le> 1\<close> (the source
  calls it with 0.1/100 and 99.9/100 only): missing values are skipped, the position
  \<open>(n - 1) * q\<close> is interpolated between its two neighbours in the sorted values
  (\<open>interpolate\<close>, on a sorted list that is not empty), and the result is NaN when no
  value is left.
\<close>

definition interpolate :: "rat list \<Rightarrow> rat \<Rightarrow> rat" where
  "interpolate xs q =
     (let n = length xs; h = of_nat (n - 1) * q; i = nat \<lfloor>h\<rfloor>; frac = h - of_int \<lfloor>h\<rfloor>
      in if i + 1 < n then xs ! i + frac * (xs ! (i + 1) - xs ! i) else xs ! (n - 1))"

definition quantile :: "rat option list \<Rightarrow> rat \<Rightarrow> rat option" where
  "quantile col q =
     (let xs = sort (dropna col)
      in if xs = [] then None else Some (interpolate xs q))"

definition effective_lower :: "rat option list \<Rightarrow> rat \<Rightarrow> rat \<Rightarrow> rat option" where
  "effective_lower col lower_percentile min_price =
     py_min (quantile col (lower_percentile / 100)) (Some min_price)"

definition effective_upper :: "rat option list \<Rightarrow> rat \<Rightarrow> rat \<Rightarrow> rat option" where
  "effective_upper col upper_percentile max_price =
     py_max (quantile col (upper_percentile / 100)) (Some max_price)"

text \<open>The mask of valid prices, for one value of the column.\<close>

definition price_mask :: "rat option \<Rightarrow> rat option \<Rightarrow> rat option \<Rightarrow> bool" where
  "price_mask lo hi v = (nan_le lo v \<and> nan_le v hi)"

definition remove_price_outliers ::
  "rat option row list \<Rightarrow> price_column \<Rightarrow> rat \<Rightarrow> rat \<Rightarrow> rat \<Rightarrow> rat \<Rightarrow> rat option row list" where
  "remove_price_outliers df column lower_percentile upper_percentile min_price max_price =
     (let col = map (get_price column) df;
          lo = effective_lower col lower_percentile min_price;
          hi = effective_upper col upper_percentile max_price
      in map (\<lambda>r. if price_mask lo hi (get_price column r) then r
                   else set_price column None r) df)"

text \<open>The call with the default arguments, as \<^verbatim>\<open>prepare_price_data\<close> makes it.\<close>

definition remove_price_outliers_default ::
  "rat option row list \<Rightarrow> price_column \<Rightarrow> rat option row list" where
  "remove_price_outliers_default df column =
     remove_price_outliers df column (1 / 10) (999 / 10) 12 35"

text \<open>The first loop of \<^verbatim>\<open>prepare_price_data\<close>: the three price columns to numeric.\<close>

definition coerce_prices :: "cell row \<Rightarrow> rat option row" where
  "coerce_prices r =
     \<lparr>place_id = place_id r, state_name = state_name r,
      municipality_name = municipality_name r,
      regular_price = to_numeric (regular_price r),
      premium_price = to_numeric (premium_price r),
      diesel_price = to_numeric (diesel_price r)\<rparr>"

definition prepare_price_data :: "cell row list \<Rightarrow> rat option row list" where
  "prepare_price_data df_station =
     foldl remove_price_outliers_default (map coerce_prices df_station)
       [RegularCol, PremiumCol, DieselCol]"

subsection \<open>Volume Normalizer: \<^verbatim>\<open>prepare_volume_data\<close>\<close>

definition prepare_volume_data :: "cell vol_row list \<Rightarrow> rat option vol_row list" where
  "prepare_volume_data df_vol =
     map (\<lambda>r. \<lparr>anio = anio r, vol_entidad = vol_entidad r,
                volumen_vendido = to_numeric (volumen_vendido r)\<rparr>) df_vol"

subsection \<open>Grouping and joining\<close>

text \<open>
  The keys of \<^verbatim>\<open>df.groupby(key)\<close>: the distinct key values, sorted. Strings are
  ordered character by character, pairs lexicographically.
\<close>

definition groupby_keys :: "('r \<Rightarrow> 'k::linorder) \<Rightarrow> 'r list \<Rightarrow> 'k list" where
  "groupby_keys key df = sort (remdups (map key df))"

text \<open>
  \<^verbatim>\<open>pd.merge(left, right, how="left")\<close> on one key column, the right table given as
  (key, value) rows: every left row is kept, in order, once for each right row of its key,
  or once with a missing value when the right table has no row of that key.
\<close>

definition merge_left :: "('a \<Rightarrow> 'k) \<Rightarrow> 'a list \<Rightarrow> ('k \<times> 'v) list \<Rightarrow> ('a \<times> 'v option) list" where
  "merge_left key left right =
     concat (map (\<lambda>a. let ms = filter (\<lambda>kv. fst kv = key a) right
                      in if ms = [] then [(a, None)]
                         else map (\<lambda>kv. (a, Some (snd kv))) ms) left)"

text \<open>A float that is missing because the join found no row, or because it was NaN.\<close>

fun flatten :: "'a option option \<Rightarrow> 'a option" where
  "flatten None = None"
| "flatten (Some v) = v"

text \<open>\<^verbatim>\<open>Series.fillna(0)\<close> on one value.\<close>

fun fillna0 :: "'a::zero option \<Rightarrow> 'a" where
  "fillna0 None = 0"
| "fillna0 (Some x) = x"

text \<open>Subtraction of floats: NaN when either side is NaN.\<close>

fun nan_sub :: "rat option \<Rightarrow> rat option \<Rightarrow> rat option" where
  "nan_sub (Some x) (Some y) = Some (x - y)"
| "nan_sub _ _ = None"

text \<open>
  Division of floats as pandas performs it: no error is raised; a non-zero number divided
  by zero is an infinity of its sign, zero by zero is NaN, and NaN on either side gives
  NaN.
\<close>

fun fdiv :: "rat option \<Rightarrow> rat option \<Rightarrow> fval" where
  "fdiv (Some x) (Some y) =
     (if y \<noteq> 0 then Fin (x / y) else if 0 < x then PInf else if x < 0 then NInf else NaN)"
| "fdiv _ _ = NaN"

subsection \<open>Station counts\<close>

text \<open>\<^verbatim>\<open>df_station.groupby("state_name")["place_id"].nunique().reset_index()\<close>\<close>

definition stations_per_state :: "'p row list \<Rightarrow> (string \<times> nat) list" where
  "stations_per_state df_station =
     map (\<lambda>s. (s, nunique (map place_id (filter (\<lambda>r. state_name r = s) df_station))))
       (groupby_keys state_name df_station)"


subsection \<open>Average prices and deviations\<close>

text \<open>\<^verbatim>\<open>df_price[fuel].mean()\<close>\<close>

definition national_avg :: "rat option row list \<Rightarrow> price_column \<Rightarrow> rat option" where
  "national_avg df_price fuel = mean (map (get_price fuel) df_price)"

text \<open>\<^verbatim>\<open>df_price.groupby("state_name")[fuel].mean().reset_index()\<close>\<close>

definition state_average_price :: "rat option row list \<Rightarrow> price_column \<Rightarrow> (string \<times> rat option) list" where
  "state_average_price df_price fuel =
     map (\<lambda>s. (s, mean (map (get_price fuel) (filter (\<lambda>r. state_name r = s) df_price))))
       (groupby_keys state_name df_price)"

text \<open>
  The table of one chart of \<^verbatim>\<open>display_state_price_triplet\<close> (state, average price),
  before it is sorted for display.
\<close>

definition display_state_price :: "rat option row list \<Rightarrow> pop_row list \<Rightarrow> price_column \<Rightarrow> (string \<times> rat) list" where
  "display_state_price df_price df_pop fuel =
     (let all_states = unique (map entidad_federativa df_pop);
          df_merged = merge_left id all_states (state_average_price df_price fuel)
      in map (\<lambda>(s, v). (s, fillna0 (flatten v))) df_merged)"

text \<open>
  The table of one chart of \<^verbatim>\<open>display_state_price_deviation_triplet\<close>, before it is
  sorted for display: state, average price, deviation from the national average. The
  percentage and the formatted columns are left out.
\<close>

record deviation_row =
  dev_state :: string
  average_price :: rat
  price_deviation :: "rat option"

definition display_state_price_deviation :: "rat option row list \<Rightarrow> pop_row list \<Rightarrow> price_column \<Rightarrow> deviation_row list" where
  "display_state_price_deviation df_price df_pop fuel =
     (let avg = national_avg df_price fuel;
          all_states = unique (map entidad_federativa df_pop);
          df_merged = merge_left id all_states (state_average_price df_price fuel)
      in map (\<lambda>(s, v). let a = fillna0 (flatten v)
                         in \<lparr>dev_state = s, average_price = a,
                             price_deviation = nan_sub (Some a) avg\<rparr>) df_merged)"

text \<open>
  The municipality tables of \<^verbatim>\<open>display_municipality_price_triplet\<close> and
  \<^verbatim>\<open>display_municipality_price_deviation_triplet\<close>, before the top 15 rows are
  selected: the groups are the (municipality, state) pairs of the rows that have a
  municipality, since \<^verbatim>\<open>groupby\<close> drops the rows whose key is missing.
\<close>

record mun_row =
  mun_name :: string
  mun_state :: string
  mun_average_price :: "rat option"
  mun_price_deviation :: "rat option"

definition mun_key :: "'p row \<Rightarrow> (string \<times> string) option" where
  "mun_key r = map_option (\<lambda>m. (m, state_name r)) (municipality_name r)"

definition display_municipality_price :: "rat option row list \<Rightarrow> price_column \<Rightarrow> mun_row list" where
  "display_municipality_price df_price fuel =
     (let avg = national_avg df_price fuel
      in map (\<lambda>k. let a = mean (map (get_price fuel) (filter (\<lambda>r. mun_key r = Some k) df_price))
                  in \<lparr>mun_name = fst k, mun_state = snd k, mun_average_price = a,
                      mun_price_deviation = nan_sub a avg\<rparr>)
           (sort (remdups (dropna (map mun_key df_price)))))"

subsection \<open>Volume per station and per capita (\<^verbatim>\<open>volume_analysis_charts\<close>)\<close>

text \<open>The rows of the year 2024.\<close>

definition df_volume_agg :: "rat option vol_row list \<Rightarrow> rat option vol_row list" where
  "df_volume_agg df_volume = filter (\<lambda>r. anio r = 2024) df_volume"

text \<open>\<^verbatim>\<open>df.groupby("EntidadFederativa")["Volumen Vendido (litros)"].sum().reset_index()\<close>\<close>

definition vol_by_state :: "rat option vol_row list \<Rightarrow> (string \<times> rat) list" where
  "vol_by_state df =
     map (\<lambda>s. (s, series_sum (map volumen_vendido (filter (\<lambda>r. vol_entidad r = s) df))))
       (groupby_keys vol_entidad df)"

record per_station_row =
  ps_state :: string
  ps_volume :: rat
  count_stations :: nat
  avg_volume_per_station :: fval

text \<open>
  The table \<^verbatim>\<open>merged_state_vol\<close>, before it is sorted for display. \<^verbatim>\<open>np.where\<close>
  takes the quotient where the count is positive and 0 elsewhere.
\<close>

definition merged_state_vol :: "rat option vol_row list \<Rightarrow> 'p row list \<Rightarrow> per_station_row list" where
  "merged_state_vol df_volume df_station =
     map (\<lambda>((s, v), c). let n = fillna0 c
                        in \<lparr>ps_state = s, ps_volume = v, count_stations = n,
                            avg_volume_per_station =
                              (if 0 < n then fdiv (Some v) (Some (of_nat n)) else Fin 0)\<rparr>)
       (merge_left fst (vol_by_state (df_volume_agg df_volume)) (stations_per_state df_station))"

text \<open>
  \<^verbatim>\<open>df_pop_clean\<close>: the population column to numeric. A \<open>Num\<close> cell stands for a
  text that is a number once its thousands separators are removed.
\<close>

definition df_pop_clean :: "pop_row list \<Rightarrow> (string \<times> rat option) list" where
  "df_pop_clean df_pop = map (\<lambda>p. (entidad_federativa p, to_numeric (population_2024 p))) df_pop"

record per_capita_row =
  pc_state :: string
  pc_volume :: rat
  pc_population :: "rat option"
  volume_per_capita :: fval

text \<open>
  The table \<^verbatim>\<open>per_capita_data\<close> of the branch without the fuel-type breakdown, before it
  is sorted for display.
\<close>

definition per_capita_data :: "rat option vol_row list \<Rightarrow> pop_row list \<Rightarrow> per_capita_row list" where
  "per_capita_data df_volume df_pop =
     (let df_volume_2024 = filter (\<lambda>r. anio r = 2024) (df_volume_agg df_volume)
      in map (\<lambda>((s, v), p). let pop = flatten p
                          in \<lparr>pc_state = s, pc_volume = v, pc_population = pop,
                              volume_per_capita = fdiv (Some v) pop\<rparr>)
           (merge_left fst (vol_by_state df_volume_2024) (df_pop_clean df_pop)))"

subsection \<open>Formatter: \<^verbatim>\<open>format_volume\<close>, \<^verbatim>\<open>format_currency\<close>\<close>

text \<open>The decimal digits of a natural number.\<close>

fun show_nat :: "nat \<Rightarrow> string" where
  "show_nat n =
     (if n < 10 then [''0123456789'' ! n]
      else show_nat (n div 10) @ [''0123456789'' ! (n mod 10)])"

declare show_nat.simps [simp del]

text \<open>Rounding to the nearest integer, a tie to the even neighbour.\<close>

definition round_half_even :: "rat \<Rightarrow> int" where
  "round_half_even x =
     (let f = \<lfloor>x\<rfloor>; d = x - of_int f
      in if d < 1 / 2 then f else if 1 / 2 < d then f + 1
         else if even f then f else f + 1)"

text \<open>
  Python's \<^verbatim>\<open>f"{v:.2f}"\<close> for a finite number: sign, integer part, two decimals. The
  number is an exact rational here, so a tie is a tie of the rational.
\<close>

definition fmt_2f :: "rat \<Rightarrow> string" where
  "fmt_2f v =
     (let h = nat (round_half_even (\<bar>v\<bar> * 100))
      in (if v < 0 then ''-'' else []) @ show_nat (h div 100) @ ''.''
         @ [''0123456789'' ! (h mod 100 div 10), ''0123456789'' ! (h mod 10)])"

text \<open>\<^verbatim>\<open>s.rstrip(c)\<close> for a single character \<open>c\<close>.\<close>

definition rstrip :: "char \<Rightarrow> string \<Rightarrow> string" where
  "rstrip c s = rev (dropWhile (\<lambda>x. x = c) (rev s))"

definition format_volume :: "rat \<Rightarrow> bool \<Rightarrow> string" where
  "format_volume x include_label =
     (if 10 ^ 9 \<le> x then
        let val = rstrip CHR ''.'' (rstrip CHR ''0'' (fmt_2f (x / 10 ^ 9) @ ''B''))
        in if include_label then val @ '' liters'' else val
      else
        let val = rstrip CHR ''.'' (rstrip CHR ''0'' (fmt_2f (x / 10 ^ 6) @ ''M''))
        in if include_label then val @ '' liters'' else val)"

definition format_currency :: "rat \<Rightarrow> bool \<Rightarrow> bool \<Rightarrow> string" where
  "format_currency x include_currency include_usd =
     (let usd_value = x / 20
      in if 10 ^ 12 \<le> x then
           let mxn = rstrip CHR ''.'' (rstrip CHR ''0'' (''$'' @ fmt_2f (x / 10 ^ 12) @ ''T''))
           in if include_usd then
                let usd =
                  (if usd_value < 10 ^ 12 then
                     rstrip CHR ''.'' (rstrip CHR ''0'' (''(USD '' @ fmt_2f (usd_value / 10 ^ 9) @ ''B)''))
                   else
                     rstrip CHR ''.'' (rstrip CHR ''0'' (''(USD '' @ fmt_2f (usd_value / 10 ^ 12) @ ''T)'')))
                in if include_currency then mxn @ '' MXN '' @ usd else mxn @ '' '' @ usd
              else if include_currency then mxn @ '' MXN'' else mxn
         else if 10 ^ 9 \<le> x then
           let mxn = rstrip CHR ''.'' (rstrip CHR ''0'' (''$'' @ fmt_2f (x / 10 ^ 9) @ ''B''))
           in if include_usd then
                let usd = rstrip CHR ''.'' (rstrip CHR ''0'' (''(USD '' @ fmt_2f (usd_value / 10 ^ 9) @ ''B)''))
                in if include_currency then mxn @ '' MXN '' @ usd else mxn @ '' '' @ usd
              else if include_currency then mxn @ '' MXN'' else mxn
         else
           let mxn = rstrip CHR ''.'' (rstrip CHR ''0'' (''$'' @ fmt_2f (x / 10 ^ 6) @ ''M''))
           in if include_usd then
                let usd = rstrip CHR ''.'' (rstrip CHR ''0'' (''(USD '' @ fmt_2f (usd_value / 10 ^ 6) @ ''M)''))
                in if include_currency then mxn @ '' MXN '' @ usd else mxn @ '' '' @ usd
              else if include_currency then mxn @ '' MXN'' else mxn)"

subsection \<open>Quantities of the stated properties\<close>

text \<open>
  The number of stations of a state as \<open>stations_per_state\<close> counts them (0 for a state
  the table does not have), and the number of rows of a state that have a price for the
  fuel.
\<close>

definition num_stations :: "'p row list \<Rightarrow> string \<Rightarrow> nat" where
  "num_stations df s = fillna0 (map_of (stations_per_state df) s)"

definition selling_count :: "rat option row list \<Rightarrow> price_column \<Rightarrow> string \<Rightarrow> nat" where
  "selling_count df fuel s =
     length (dropna (map (get_price fuel) (filter (\<lambda>r. state_name r = s) df)))"

text \<open>
  The sum, over the rows of a state deviation table, of a weight of the state times the
  state's average price minus the national average.
\<close>

definition weighted_deviation_sum :: "(string \<Rightarrow> nat) \<Rightarrow> rat \<Rightarrow> deviation_row list \<Rightarrow> rat" where
  "weighted_deviation_sum w avg table =
     sum_list (map (\<lambda>row. of_nat (w (dev_state row)) * (average_price row - avg)) table)"

text \<open>
  The outlier policy in the words of the specification, for one float column: the bounds
  are the smaller of the 0.1th percentile and 12 and the larger of the 99.9th percentile
  and 35, percentiles taken over the non-missing values; a value outside the bounds
  becomes missing, every other value and every position is kept.
\<close>

definition spec_clean_column :: "rat option list \<Rightarrow> rat option list" where
  "spec_clean_column col =
     (let xs = sort (dropna col);
          lo = min (interpolate xs (1 / 1000)) 12;
          hi = max (interpolate xs (999 / 1000)) 35
      in map (\<lambda>v. case v of None \<Rightarrow> None
                    | Some x \<Rightarrow> if lo \<le> x \<and> x \<le> hi then Some x else None) col)"

subsection \<open>Example tables\<close>

definition gas_row :: "string option \<Rightarrow> string \<Rightarrow> cell \<Rightarrow> cell row" where
  "gas_row i s v =
     \<lparr>place_id = i, state_name = s, municipality_name = Some ''Centro'',
      regular_price = v, premium_price = Missing, diesel_price = Missing\<rparr>"

definition price_row :: "string \<Rightarrow> string \<Rightarrow> rat option \<Rightarrow> rat option row" where
  "price_row i s v =
     \<lparr>place_id = Some i, state_name = s, municipality_name = Some ''Centro'',
      regular_price = v, premium_price = None, diesel_price = None\<rparr>"

definition pop :: "string \<Rightarrow> cell \<Rightarrow> pop_row" where
  "pop s n = \<lparr>entidad_federativa = s, population_2024 = n\<rparr>"

definition vol :: "int \<Rightarrow> string \<Rightarrow> rat option \<Rightarrow> rat option vol_row" where
  "vol y s v = \<lparr>anio = y, vol_entidad = s, volumen_vendido = v\<rparr>"

definition five_prices :: "rat option list" where
  "five_prices = [Some 5, Some 20, Some 21, Some 22, Some 40]"

definition five_stations :: "rat option row list" where
  "five_stations =
     [price_row ''p1'' ''Colima'' (Some 5), price_row ''p2'' ''Colima'' (Some 20),
      price_row ''p3'' ''Colima'' (Some 21), price_row ''p4'' ''Colima'' (Some 22),
      price_row ''p5'' ''Colima'' (Some 40)]"

definition missing_prices :: "rat option row list" where
  "missing_prices = [price_row ''p1'' ''Colima'' None, price_row ''p2'' ''Nayarit'' None]"

definition three_states :: "pop_row list" where
  "three_states =
     [pop ''Colima'' (Num 731391), pop ''Nayarit'' (Num 1235456), pop ''Tlaxcala'' (Num 1342977)]"

definition sample_prices :: "rat option row list" where
  "sample_prices =
     [price_row ''p1'' ''Colima'' (Some 20), price_row ''p2'' ''Colima'' None,
      price_row ''p3'' ''Nayarit'' (Some 22)]"

definition sample_volume :: "rat option vol_row list" where
  "sample_volume =
     [vol 2024 ''Colima'' (Some 1000), vol 2024 ''Nayarit'' (Some 500),
      vol 2023 ''Colima'' (Some 7)]"

definition nayarit_station :: "rat option row list" where
  "nayarit_station = [price_row ''p1'' ''Nayarit'' (Some 20)]"

definition colima_empty :: "pop_row list" where
  "colima_empty = [pop ''Colima'' (Num 0)]"

definition colima_unreadable :: "pop_row list" where
  "colima_unreadable = [pop ''Colima'' (Str ''n/d'')]"

definition two_states :: "pop_row list" where
  "two_states = [pop ''Colima'' (Num 731391), pop ''Nayarit'' (Num 1235456)]"

definition station_without_id :: "cell row list" where
  "station_without_id = [gas_row None ''Nayarit'' (Num 20)]"

definition two_stations :: "cell row list" where
  "two_stations =
     [gas_row (Some ''p1'') ''Nayarit'' (Num 20), gas_row (Some ''p1'') ''Nayarit'' (Num 25),
      gas_row (Some ''p2'') ''Nayarit'' (Str ''n/d'')]"

section \<open>Helper lemmas\<close>

subsection \<open>Grouping and joining\<close>

lemma unique_set: "set (unique xs) = set xs"
  by (simp add: unique_def)

lemma unique_distinct: "distinct (unique xs)"
  by (simp add: unique_def)

lemma groupby_keys_set: "set (groupby_keys key df) = key ` set df"
  by (simp add: groupby_keys_def)

lemma groupby_keys_distinct: "distinct (groupby_keys key df)"
  by (simp add: groupby_keys_def)

lemma filter_key_graph:
  "distinct ks \<Longrightarrow>
   filter (\<lambda>kv. fst kv = k) (map (\<lambda>s. (s, f s)) ks) = (if k \<in> set ks then [(k, f k)] else [])"
  by (induction ks) auto

lemma merge_left_graph:
  assumes "distinct ks"
  shows "merge_left key left (map (\<lambda>s. (s, f s)) ks)
         = map (\<lambda>a. (a, if key a \<in> set ks then Some (f (key a)) else None)) left"
proof -
  have inner: "(let ms = filter (\<lambda>kv. fst kv = key a) (map (\<lambda>s. (s, f s)) ks)
                in if ms = [] then [(a, None)] else map (\<lambda>kv. (a, Some (snd kv))) ms)
               = [(a, if key a \<in> set ks then Some (f (key a)) else None)]" for a
    using assms by (simp add: filter_key_graph)
  show ?thesis
    unfolding merge_left_def inner by (simp add: concat_map_singleton)
qed

lemma merge_left_member:
  assumes "(a, v) \<in> set (merge_left key left right)"
  shows "a \<in> set left"
    and "v = None \<Longrightarrow> key a \<notin> fst ` set right"
    and "v = Some x \<Longrightarrow> (key a, x) \<in> set right"
  using assms
  by (auto simp: merge_left_def Let_def filter_empty_conv image_iff split: if_splits)

lemma merge_left_matched:
  assumes "a \<in> set left" "(key a, x) \<in> set right"
  shows "(a, Some x) \<in> set (merge_left key left right)"
proof -
  have "(key a, x) \<in> set (filter (\<lambda>kv. fst kv = key a) right)"
    using assms(2) by simp
  then have ne: "filter (\<lambda>kv. fst kv = key a) right \<noteq> []"
    and "(a, Some x) \<in> set (map (\<lambda>kv. (a, Some (snd kv))) (filter (\<lambda>kv. fst kv = key a) right))"
    by force+
  then show ?thesis
    using assms(1) unfolding merge_left_def Let_def by (auto intro!: bexI [of _ a])
qed

lemma merge_left_unmatched:
  assumes "a \<in> set left" "key a \<notin> fst ` set right"
  shows "(a, None) \<in> set (merge_left key left right)"
proof -
  have "filter (\<lambda>kv. fst kv = key a) right = []"
    using assms(2) by (force simp: filter_empty_conv)
  then show ?thesis
    using assms(1) unfolding merge_left_def Let_def by (auto intro!: bexI [of _ a])
qed

lemma vol_by_state_set:
  "set (vol_by_state df)
   = (\<lambda>s. (s, series_sum (map volumen_vendido (filter (\<lambda>r. vol_entidad r = s) df))))
       ` vol_entidad ` set df"
  by (simp add: vol_by_state_def groupby_keys_set image_image)

lemma per_capita_data_set:
  "set (per_capita_data df_volume df_pop)
   = (\<lambda>((s, v), p). \<lparr>pc_state = s, pc_volume = v, pc_population = flatten p,
                       volume_per_capita = fdiv (Some v) (flatten p)\<rparr>)
       ` set (merge_left fst (vol_by_state (df_volume_agg df_volume)) (df_pop_clean df_pop))"
  by (simp add: per_capita_data_def Let_def df_volume_agg_def)

lemma nunique_Nil: "nunique [] = 0"
  by (simp add: nunique_def unique_def)

lemma stations_merge:
  "merge_left key left (stations_per_state df_station)
   = map (\<lambda>a. (a, if key a \<in> state_name ` set df_station
                   then Some (nunique (map place_id (filter (\<lambda>r. state_name r = key a) df_station)))
                   else None)) left"
  unfolding stations_per_state_def
  by (simp add: merge_left_graph groupby_keys_distinct groupby_keys_set)

lemma filter_no_state: "s \<notin> state_name ` set df \<Longrightarrow> filter (\<lambda>r. state_name r = s) df = []"
  by (auto simp: filter_empty_conv)

lemma station_count_fill:
  "fillna0 (if s \<in> state_name ` set df
            then Some (nunique (map place_id (filter (\<lambda>r. state_name r = s) df))) else None)
   = nunique (map place_id (filter (\<lambda>r. state_name r = s) df))"
  by (simp add: filter_no_state nunique_Nil)

lemma merged_state_vol_rows:
  "merged_state_vol df_volume df_station =
     map (\<lambda>(s, v). let n = nunique (map place_id (filter (\<lambda>r. state_name r = s) df_station))
                   in \<lparr>ps_state = s, ps_volume = v, count_stations = n,
                       avg_volume_per_station =
                         (if 0 < n then fdiv (Some v) (Some (of_nat n)) else Fin 0)\<rparr>)
       (vol_by_state (df_volume_agg df_volume))"
  unfolding merged_state_vol_def stations_merge
  by (simp add: station_count_fill split_def Let_def del: fillna0.simps)



lemma mean_Nil: "mean [] = None"
  by (simp add: mean_def)

lemma dropna_Nil_iff: "dropna col = [] \<longleftrightarrow> (\<forall>v \<in> set col. v = None)"
  by (induction col rule: dropna.induct) auto

lemma mean_all_missing: "\<forall>v \<in> set col. v = None \<Longrightarrow> mean col = None"
  by (simp add: mean_def dropna_Nil_iff)

lemma state_average_merge:
  "merge_left id states (state_average_price df_price fuel)
   = map (\<lambda>s. (s, if s \<in> state_name ` set df_price
                   then Some (mean (map (get_price fuel) (filter (\<lambda>r. state_name r = s) df_price)))
                   else None)) states"
  unfolding state_average_price_def
  by (simp add: merge_left_graph groupby_keys_distinct groupby_keys_set)

lemma state_average_fill:
  "fillna0 (flatten (if s \<in> state_name ` set df
            then Some (mean (map (get_price fuel) (filter (\<lambda>r. state_name r = s) df))) else None))
   = fillna0 (mean (map (get_price fuel) (filter (\<lambda>r. state_name r = s) df)))"
  by (simp add: filter_no_state mean_Nil)

lemma display_state_price_rows:
  "display_state_price df_price df_pop fuel
   = map (\<lambda>s. (s, fillna0 (mean (map (get_price fuel) (filter (\<lambda>r. state_name r = s) df_price)))))
       (unique (map entidad_federativa df_pop))"
  unfolding display_state_price_def Let_def state_average_merge
  by (auto simp: filter_no_state mean_Nil)

lemma display_state_price_deviation_rows:
  "display_state_price_deviation df_price df_pop fuel
   = map (\<lambda>s. \<lparr>dev_state = s,
               average_price = fillna0 (mean (map (get_price fuel) (filter (\<lambda>r. state_name r = s) df_price))),
               price_deviation =
                 nan_sub (Some (fillna0 (mean (map (get_price fuel) (filter (\<lambda>r. state_name r = s) df_price)))))
                   (national_avg df_price fuel)\<rparr>)
       (unique (map entidad_federativa df_pop))"
  unfolding display_state_price_deviation_def Let_def state_average_merge
  by (auto simp: filter_no_state mean_Nil)

subsection \<open>Price cleaner\<close>

lemma sort_Nil_iff: "sort xs = [] \<longleftrightarrow> xs = []"
  by (metis length_sort length_0_conv)

lemma quantile_missing: "dropna col = [] \<Longrightarrow> quantile col q = None"
  by (simp add: quantile_def)

lemma quantile_present:
  "dropna col \<noteq> [] \<Longrightarrow> quantile col q = Some (interpolate (sort (dropna col)) q)"
  by (simp add: quantile_def sort_Nil_iff Let_def)

lemma py_min_Some: "py_min (Some p) (Some m) = Some (min p m)"
  by (auto simp: py_min_def min_def)

lemma py_max_Some: "py_max (Some p) (Some m) = Some (max p m)"
  by (auto simp: py_max_def max_def)

lemma effective_bounds_present:
  assumes "dropna col \<noteq> []"
  shows "effective_lower col lp mn = Some (min (interpolate (sort (dropna col)) (lp / 100)) mn)"
    and "effective_upper col up mx = Some (max (interpolate (sort (dropna col)) (up / 100)) mx)"
  using assms
  by (simp_all add: effective_lower_def effective_upper_def quantile_present py_min_Some py_max_Some)

lemma effective_bounds_missing:
  assumes "dropna col = []"
  shows "effective_lower col lp mn = None" and "effective_upper col up mx = None"
  using assms
  by (simp_all add: effective_lower_def effective_upper_def quantile_missing py_min_def py_max_def)

lemma price_mask_None: "\<not> price_mask None hi v" "\<not> price_mask lo None v" "\<not> price_mask lo hi None"
  by (cases lo; cases hi; cases v; simp add: price_mask_def)+

lemma price_mask_Some: "price_mask (Some lo) (Some hi) (Some x) \<longleftrightarrow> lo \<le> x \<and> x \<le> hi"
  by (simp add: price_mask_def)

lemma get_set_price: "get_price c (set_price c v r) = v"
  by (cases c) simp_all

lemma get_set_price_other: "c' \<noteq> c \<Longrightarrow> get_price c' (set_price c v r) = get_price c' r"
  by (cases c; cases c') simp_all

lemma set_price_fields:
  "place_id (set_price c v r) = place_id r"
  "state_name (set_price c v r) = state_name r"
  "municipality_name (set_price c v r) = municipality_name r"
  by (cases c; simp)+

lemma set_price_same: "get_price c r = v \<Longrightarrow> set_price c v r = r"
  by (cases c) auto

lemma outliers_other_column:
  "c' \<noteq> c \<Longrightarrow> map (get_price c') (remove_price_outliers df c lp up mn mx) = map (get_price c') df"
  by (simp add: remove_price_outliers_def Let_def get_set_price_other)

lemma outliers_fields:
  "map place_id (remove_price_outliers df c lp up mn mx) = map place_id df"
  "map state_name (remove_price_outliers df c lp up mn mx) = map state_name df"
  "map municipality_name (remove_price_outliers df c lp up mn mx) = map municipality_name df"
  by (simp_all add: remove_price_outliers_def Let_def set_price_fields)

lemma outliers_own_column:
  "map (get_price c) (remove_price_outliers df c lp up mn mx)
   = (let col = map (get_price c) df
      in map (\<lambda>v. if price_mask (effective_lower col lp mn) (effective_upper col up mx) v
                    then v else None) col)"
  by (simp add: remove_price_outliers_def Let_def get_set_price)

lemma mask_column_spec:
  "map (\<lambda>v. if price_mask (effective_lower col (1 / 10) 12) (effective_upper col (999 / 10) 35) v
              then v else None) col
   = spec_clean_column col"
proof (cases "dropna col = []")
  case True
  then have "\<forall>v \<in> set col. v = None" by (simp add: dropna_Nil_iff)
  then show ?thesis
    by (auto simp: spec_clean_column_def Let_def price_mask_None)
next
  case False
  have "(if price_mask (Some lo) (Some hi) v then v else None)
        = (case v of None \<Rightarrow> None | Some x \<Rightarrow> if lo \<le> x \<and> x \<le> hi then Some x else None)"
    for lo hi v
    by (cases v) (simp_all add: price_mask_None price_mask_Some)
  then show ?thesis
    by (simp add: effective_bounds_present [OF False] spec_clean_column_def Let_def)
qed

lemma default_own_column:
  "map (get_price c) (remove_price_outliers_default df c) = spec_clean_column (map (get_price c) df)"
  by (simp add: remove_price_outliers_default_def outliers_own_column Let_def mask_column_spec)

lemma default_other_column:
  "c' \<noteq> c \<Longrightarrow> map (get_price c') (remove_price_outliers_default df c) = map (get_price c') df"
  by (simp add: remove_price_outliers_default_def outliers_other_column)

lemma coerce_column:
  "map (get_price c) (map coerce_prices df) = map (\<lambda>r. to_numeric (get_price c r)) df"
  by (cases c) (simp_all add: coerce_prices_def)

subsection \<open>Sums over the groups of a table\<close>

lemma count_times_mean: "of_nat (length (dropna c)) * fillna0 (mean c) = sum_list (dropna c)"
  by (simp add: mean_def Let_def)

lemma sum_list_indicator_absent:
  "k \<notin> set S \<Longrightarrow> sum_list (map (\<lambda>s. if k = s then c else 0) S) = (0::rat)"
  by (induction S) auto

lemma sum_list_indicator:
  fixes c :: rat
  assumes "distinct S" "k \<in> set S"
  shows "sum_list (map (\<lambda>s. if k = s then c else 0) S) = c"
  using assms by (induction S) (auto simp: sum_list_indicator_absent)

lemma sum_list_zeros: "sum_list (map (\<lambda>s. 0::rat) S) = 0"
  by (induction S) simp_all

lemma partition_sum:
  fixes h :: "'r \<Rightarrow> rat"
  assumes "distinct S" "key ` set xs \<subseteq> set S"
  shows "sum_list (map (\<lambda>s. sum_list (map h (filter (\<lambda>r. key r = s) xs))) S) = sum_list (map h xs)"
  using assms(2)
proof (induction xs)
  case Nil
  show ?case by (simp add: sum_list_zeros)
next
  case (Cons r rs)
  have split: "sum_list (map h (filter (\<lambda>r. key r = s) (r # rs)))
        = (if key r = s then h r else 0) + sum_list (map h (filter (\<lambda>r. key r = s) rs))" for s
    by simp
  have "sum_list (map (\<lambda>s. sum_list (map h (filter (\<lambda>r. key r = s) (r # rs)))) S)
        = sum_list (map (\<lambda>s. if key r = s then h r else 0) S)
          + sum_list (map (\<lambda>s. sum_list (map h (filter (\<lambda>r. key r = s) rs))) S)"
    unfolding split by (simp add: sum_list_addf)
  also have "sum_list (map (\<lambda>s. if key r = s then h r else 0) S) = h r"
    using assms(1) Cons.prems by (intro sum_list_indicator) auto
  also have "sum_list (map (\<lambda>s. sum_list (map h (filter (\<lambda>r. key r = s) rs))) S) = sum_list (map h rs)"
    using Cons.prems by (intro Cons.IH) auto
  finally show ?case by simp
qed

lemma sum_dropna: 
  "sum_list (dropna (map g xs)) = sum_list (map (\<lambda>r. case g r of None \<Rightarrow> 0 | Some x \<Rightarrow> x) xs)"
  for g :: "'r \<Rightarrow> rat option"
  by (induction xs) (auto split: option.splits)

lemma length_dropna:
  "(of_nat (length (dropna (map g xs))) :: rat)
   = sum_list (map (\<lambda>r. case g r of None \<Rightarrow> 0 | Some x \<Rightarrow> 1) xs)"
  for g :: "'r \<Rightarrow> rat option"
  by (induction xs) (auto split: option.splits)

lemma mean_Some_total:
  assumes "mean c = Some avg"
  shows "of_nat (length (dropna c)) * avg = sum_list (dropna c)"
  using assms by (auto simp: mean_def Let_def split: if_splits)

subsection \<open>Deduplication and the join with the roster\<close>

lemma dedup_subset: "set (drop_duplicates_from seen xs) \<subseteq> set xs"
  by (induction xs arbitrary: seen) auto

lemma dedup_not_seen: "r \<in> set (drop_duplicates_from seen xs) \<Longrightarrow> place_id r \<notin> set seen"
proof (induction xs arbitrary: seen)
  case Nil
  then show ?case by simp
next
  case (Cons a rs)
  show ?case
  proof (cases "place_id a \<in> set seen")
    case True
    with Cons.prems show ?thesis by (simp add: Cons.IH)
  next
    case False
    with Cons.prems have "r = a \<or> r \<in> set (drop_duplicates_from (place_id a # seen) rs)"
      by auto
    then show ?thesis
    proof
      assume "r = a"
      with False show ?thesis by simp
    next
      assume "r \<in> set (drop_duplicates_from (place_id a # seen) rs)"
      from Cons.IH [OF this] show ?thesis by simp
    qed
  qed
qed

lemma dedup_distinct: "distinct (map place_id (drop_duplicates_from seen xs))"
proof (induction xs arbitrary: seen)
  case Nil
  show ?case by simp
next
  case (Cons r rs)
  have "place_id r \<notin> place_id ` set (drop_duplicates_from (place_id r # seen) rs)"
  proof
    assume "place_id r \<in> place_id ` set (drop_duplicates_from (place_id r # seen) rs)"
    then obtain x where x: "x \<in> set (drop_duplicates_from (place_id r # seen) rs)"
      and "place_id x = place_id r" by auto
    with dedup_not_seen [OF x] show False by simp
  qed
  then show ?case using Cons.IH by simp
qed

lemma dedup_filter_length:
  "length (filter Q (drop_duplicates_from seen xs)) \<le> length (filter Q xs)"
proof (induction xs arbitrary: seen)
  case Nil
  show ?case by simp
next
  case (Cons r rs)
  show ?case
    using Cons.IH [of seen] Cons.IH [of "place_id r # seen"] by (simp add: le_SucI)
qed

lemma dedup_first:
  "r \<in> set (drop_duplicates_from seen xs) \<Longrightarrow> find (\<lambda>r'. place_id r' = place_id r) xs = Some r"
proof (induction xs arbitrary: seen)
  case Nil
  then show ?case by simp
next
  case (Cons a rs)
  show ?case
  proof (cases "place_id a \<in> set seen")
    case True
    with Cons.prems have r: "r \<in> set (drop_duplicates_from seen rs)" by simp
    then have "place_id r \<notin> set seen" by (rule dedup_not_seen)
    with True have "place_id a \<noteq> place_id r" by auto
    with Cons.IH [OF r] show ?thesis by simp
  next
    case False
    with Cons.prems have "r = a \<or> r \<in> set (drop_duplicates_from (place_id a # seen) rs)"
      by auto
    then show ?thesis
    proof
      assume "r = a"
      then show ?thesis by simp
    next
      assume r: "r \<in> set (drop_duplicates_from (place_id a # seen) rs)"
      then have "place_id r \<noteq> place_id a" using dedup_not_seen [OF r] by auto
      with Cons.IH [OF r] show ?thesis by simp
    qed
  qed
qed

lemma dedup_keeps_ids:
  assumes "distinct (map place_id (filter (\<lambda>r. place_id r \<noteq> None) xs))"
    and "\<forall>r \<in> set xs. place_id r \<noteq> None \<longrightarrow> place_id r \<notin> set seen"
  shows "filter (\<lambda>r. place_id r \<noteq> None) (drop_duplicates_from seen xs)
         = filter (\<lambda>r. place_id r \<noteq> None) xs"
  using assms
proof (induction xs arbitrary: seen)
  case Nil
  show ?case by simp
next
  case (Cons a rs)
  have d: "distinct (map place_id (filter (\<lambda>r. place_id r \<noteq> None) rs))"
    using Cons.prems(1) by (simp split: if_splits)
  have s: "\<forall>r \<in> set rs. place_id r \<noteq> None \<longrightarrow> place_id r \<notin> set seen"
    using Cons.prems(2) by simp
  show ?case
  proof (cases "place_id a \<in> set seen")
    case True
    then have "place_id a = None" using Cons.prems(2) by auto
    then show ?thesis using True Cons.IH [OF d s] by simp
  next
    case False
    have "\<forall>r \<in> set rs. place_id r \<noteq> None \<longrightarrow> place_id r \<notin> set (place_id a # seen)"
    proof (intro ballI impI)
      fix r assume r: "r \<in> set rs" "place_id r \<noteq> None"
      have "place_id r \<noteq> place_id a"
      proof
        assume e: "place_id r = place_id a"
        then have "place_id a \<noteq> None" using r(2) by simp
        then have "place_id a \<notin> place_id ` set (filter (\<lambda>r. place_id r \<noteq> None) rs)"
          using Cons.prems(1) by simp
        moreover have "place_id r \<in> place_id ` set (filter (\<lambda>r. place_id r \<noteq> None) rs)"
          using r by simp
        ultimately show False using e by simp
      qed
      then show "place_id r \<notin> set (place_id a # seen)" using s r by simp
    qed
    from Cons.IH [OF d this] show ?thesis using False by (cases "place_id a") simp_all
  qed
qed

lemma merge_states_Cons:
  "merge_states (a # S) D
   = (if filter (\<lambda>r. state_name r = a) D = [] then [placeholder a]
      else filter (\<lambda>r. state_name r = a) D) @ merge_states S D"
  by (simp add: merge_states_def Let_def)

lemma merge_states_Nil: "merge_states [] D = []"
  by (simp add: merge_states_def)

lemma placeholder_fields: "state_name (placeholder s) = s" "place_id (placeholder s) = None"
  by (simp_all add: placeholder_def)

lemma merge_states_member:
  "r \<in> set (merge_states S D) \<Longrightarrow>
   state_name r \<in> set S \<and> (r \<in> set D \<or> r = placeholder (state_name r))"
  by (induction S) (auto simp: merge_states_Cons merge_states_Nil placeholder_fields split: if_splits)

lemma filter_state_block:
  "filter (\<lambda>r. state_name r = s)
     (if filter (\<lambda>r. state_name r = a) D = [] then [placeholder a]
      else filter (\<lambda>r. state_name r = a) D)
   = (if s = a then (if filter (\<lambda>r. state_name r = a) D = [] then [placeholder a]
                     else filter (\<lambda>r. state_name r = a) D) else [])"
proof (cases "s = a")
  case True
  then show ?thesis by (simp add: placeholder_fields)
next
  case False
  have "filter (\<lambda>r. state_name r = s) (filter (\<lambda>r. state_name r = a) D) = []"
    using False by (auto simp: filter_empty_conv)
  then show ?thesis using False by (simp add: placeholder_fields)
qed

lemma filter_state_merge:
  assumes "distinct S"
  shows "filter (\<lambda>r. state_name r = s) (merge_states S D)
         = (if s \<in> set S
            then (if filter (\<lambda>r. state_name r = s) D = [] then [placeholder s]
                  else filter (\<lambda>r. state_name r = s) D)
            else [])"
  using assms
proof (induction S)
  case Nil
  show ?case by (simp add: merge_states_Nil)
next
  case (Cons a S)
  have IH: "filter (\<lambda>r. state_name r = s) (merge_states S D)
         = (if s \<in> set S
            then (if filter (\<lambda>r. state_name r = s) D = [] then [placeholder s]
                  else filter (\<lambda>r. state_name r = s) D)
            else [])"
    using Cons by simp
  have a: "a \<notin> set S" using Cons.prems by simp
  show ?case
  proof (cases "s = a")
    case True
    have rest: "filter (\<lambda>r. state_name r = s) (merge_states S D) = []"
      using IH a True by simp
    show ?thesis
      unfolding merge_states_Cons filter_append filter_state_block rest using True by simp
  next
    case False
    then show ?thesis
      by (simp only: merge_states_Cons filter_append filter_state_block IH) simp
  qed
qed

lemma merge_ids_distinct:
  assumes "distinct S" "distinct (map place_id D)"
  shows "distinct (map place_id (filter (\<lambda>r. place_id r \<noteq> None) (merge_states S D)))"
  using assms(1)
proof (induction S)
  case Nil
  show ?case by (simp add: merge_states_Nil)
next
  case (Cons a S)
  let ?P = "\<lambda>r. place_id r \<noteq> None"
  let ?F = "filter ?P (filter (\<lambda>r. state_name r = a) D)"
  have blk: "filter ?P (if filter (\<lambda>r. state_name r = a) D = [] then [placeholder a]
                         else filter (\<lambda>r. state_name r = a) D) = ?F"
    by (cases "filter (\<lambda>r. state_name r = a) D = []")
      (simp_all add: placeholder_fields del: filter_filter)
  have d1: "distinct (map place_id ?F)"
    using assms(2) by (simp add: distinct_map_filter)
  have d2: "distinct (map place_id (filter ?P (merge_states S D)))"
    using Cons by simp
  have disj: "place_id ` set ?F \<inter> place_id ` set (filter ?P (merge_states S D)) = {}"
  proof (rule ccontr)
    assume "place_id ` set ?F \<inter> place_id ` set (filter ?P (merge_states S D)) \<noteq> {}"
    then obtain x y where x: "x \<in> set ?F" and y: "y \<in> set (filter ?P (merge_states S D))"
      and e: "place_id x = place_id y" by auto
    from y have ym: "y \<in> set (merge_states S D)" and yid: "place_id y \<noteq> None" by simp_all
    from merge_states_member [OF ym]
    have yS: "state_name y \<in> set S" and "y \<in> set D \<or> y = placeholder (state_name y)"
      by simp_all
    with yid have yD: "y \<in> set D"
      by (metis placeholder_fields(2))
    from x have xD: "x \<in> set D" and xa: "state_name x = a" by simp_all
    have "inj_on place_id (set D)" using assms(2) by (simp add: distinct_map)
    with xD yD e have "x = y" by (auto dest: inj_onD)
    with xa yS Cons.prems show False by simp
  qed
  show ?case
    unfolding merge_states_Cons filter_append blk using d1 d2 disj by simp
qed

lemma dedup_ids_present:
  "\<forall>r \<in> set xs. place_id r \<noteq> None \<Longrightarrow> \<forall>r \<in> set (drop_duplicates xs). place_id r \<noteq> None"
  using dedup_subset [of "[]" xs] by (auto simp: drop_duplicates_def)

lemma merge_states_dedup:
  assumes S: "distinct S"
    and D: "distinct (map place_id D)" "\<forall>r \<in> set D. place_id r \<noteq> None"
  shows "merge_states S (drop_duplicates (merge_states S D)) = merge_states S D"
proof -
  let ?O = "merge_states S D"
  let ?P = "\<lambda>r. place_id r \<noteq> None"
  have keep: "filter ?P (drop_duplicates ?O) = filter ?P ?O"
    unfolding drop_duplicates_def
    by (rule dedup_keeps_ids [OF merge_ids_distinct [OF S D(1)]]) simp
  have block: "(let ms = filter (\<lambda>r. state_name r = s) (drop_duplicates ?O)
                in if ms = [] then [placeholder s] else ms)
             = (let ms = filter (\<lambda>r. state_name r = s) D
                in if ms = [] then [placeholder s] else ms)" if s: "s \<in> set S" for s
  proof (cases "filter (\<lambda>r. state_name r = s) D = []")
    case True
    then have O: "filter (\<lambda>r. state_name r = s) ?O = [placeholder s]"
      using s by (simp add: filter_state_merge [OF S])
    let ?X = "filter (\<lambda>r. state_name r = s) (drop_duplicates ?O)"
    have len: "length ?X \<le> 1"
      using dedup_filter_length [of "\<lambda>r. state_name r = s" "[]" ?O] O
      by (simp add: drop_duplicates_def)
    have sub: "set ?X \<subseteq> {placeholder s}"
    proof
      fix r assume "r \<in> set ?X"
      then have "r \<in> set (filter (\<lambda>r. state_name r = s) ?O)"
        using dedup_subset [of "[]" ?O] by (auto simp: drop_duplicates_def)
      then show "r \<in> {placeholder s}" unfolding O by simp
    qed
    have "?X = [] \<or> ?X = [placeholder s]"
    proof (cases ?X)
      case Nil
      then show ?thesis by simp
    next
      case (Cons r rs)
      with len have "rs = []" by simp
      moreover from Cons sub have "r = placeholder s" by auto
      ultimately show ?thesis using Cons by simp
    qed
    then show ?thesis using True by (auto simp: Let_def)
  next
    case False
    then have O: "filter (\<lambda>r. state_name r = s) ?O = filter (\<lambda>r. state_name r = s) D"
      using s by (simp add: filter_state_merge [OF S])
    have ids: "\<forall>r \<in> set ?O. state_name r = s \<longrightarrow> place_id r \<noteq> None"
    proof (intro ballI impI)
      fix r assume "r \<in> set ?O" "state_name r = s"
      then have "r \<in> set (filter (\<lambda>r. state_name r = s) ?O)" by simp
      then have "r \<in> set D" unfolding O by simp
      then show "place_id r \<noteq> None" using D(2) by simp
    qed
    have "filter (\<lambda>r. state_name r = s) (drop_duplicates ?O)
          = filter (\<lambda>r. state_name r = s) (filter ?P (drop_duplicates ?O))"
      unfolding filter_filter
      using ids dedup_subset [of "[]" ?O]
      by (intro filter_cong) (auto simp: drop_duplicates_def)
    also have "\<dots> = filter (\<lambda>r. state_name r = s) (filter ?P ?O)"
      by (simp only: keep)
    also have "\<dots> = filter (\<lambda>r. state_name r = s) ?O"
      unfolding filter_filter using ids by (intro filter_cong) auto
    finally show ?thesis using False O by (simp add: Let_def)
  qed
  have blocks: "map (\<lambda>s. let ms = filter (\<lambda>r. state_name r = s) (drop_duplicates ?O)
                          in if ms = [] then [placeholder s] else ms) S
              = map (\<lambda>s. let ms = filter (\<lambda>r. state_name r = s) D
                          in if ms = [] then [placeholder s] else ms) S"
    using block by (intro map_cong) simp_all
  have "merge_states S (drop_duplicates ?O)
        = concat (map (\<lambda>s. let ms = filter (\<lambda>r. state_name r = s) (drop_duplicates ?O)
                            in if ms = [] then [placeholder s] else ms) S)"
    by (rule merge_states_def)
  also have "\<dots> = concat (map (\<lambda>s. let ms = filter (\<lambda>r. state_name r = s) D
                            in if ms = [] then [placeholder s] else ms) S)"
    by (simp only: blocks)
  also have "\<dots> = merge_states S D"
    by (rule merge_states_def [symmetric])
  finally show ?thesis .
qed

lemma drop_duplicates_distinct: "distinct (map place_id (drop_duplicates xs))"
  by (simp add: drop_duplicates_def dedup_distinct)

lemma remdups_snoc: "remdups (ys @ [x]) = filter (\<lambda>y. y \<noteq> x) (remdups ys) @ [x]"
  by (induction ys) auto

lemma unique_Cons: "unique (x # xs) = x # filter (\<lambda>y. y \<noteq> x) (unique xs)"
  by (simp add: unique_def remdups_snoc rev_filter)

lemma dedup_ids_order:
  "map place_id (drop_duplicates_from seen xs)
   = filter (\<lambda>i. i \<notin> set seen) (unique (map place_id xs))"
proof (induction xs arbitrary: seen)
  case Nil
  show ?case by (simp add: unique_def)
next
  case (Cons r rs)
  show ?case
  proof (cases "place_id r \<in> set seen")
    case True
    have "filter (\<lambda>i. i \<notin> set seen) (filter (\<lambda>y. y \<noteq> place_id r) (unique (map place_id rs)))
          = filter (\<lambda>i. i \<notin> set seen) (unique (map place_id rs))"
      unfolding filter_filter using True by (intro filter_cong) auto
    then show ?thesis using True Cons.IH [of seen] by (simp add: unique_Cons)
  next
    case False
    have "filter (\<lambda>i. i \<notin> set seen) (filter (\<lambda>y. y \<noteq> place_id r) (unique (map place_id rs)))
          = filter (\<lambda>i. i \<notin> set (place_id r # seen)) (unique (map place_id rs))"
      unfolding filter_filter by (intro filter_cong) auto
    then show ?thesis using False Cons.IH [of "place_id r # seen"] by (simp add: unique_Cons)
  qed
qed

lemma drop_duplicates_ids: "map place_id (drop_duplicates xs) = unique (map place_id xs)"
  by (simp add: drop_duplicates_def dedup_ids_order)

lemma drop_duplicates_id_set: "place_id ` set (drop_duplicates xs) = place_id ` set xs"
proof -
  have "place_id ` set (drop_duplicates xs) = set (map place_id (drop_duplicates xs))"
    by simp
  also have "\<dots> = set (map place_id xs)"
    by (simp only: drop_duplicates_ids unique_set)
  finally show ?thesis by simp
qed

lemma prepare_station_states:
  "state_name ` set (prepare_station_data df_gas df_pop) \<subseteq> entidad_federativa ` set df_pop"
  using merge_states_member [of _ "unique (map entidad_federativa df_pop)" "drop_duplicates df_gas"]
  by (auto simp: prepare_station_data_def Let_def unique_set)

lemma prepare_price_states: "map state_name (prepare_price_data df) = map state_name df"
  by (simp add: prepare_price_data_def remove_price_outliers_default_def outliers_fields
      coerce_prices_def)

lemma pipeline_states_in_roster:
  "state_name ` set (prepare_price_data (prepare_station_data df_gas df_pop))
   \<subseteq> entidad_federativa ` set df_pop"
proof -
  have "state_name ` set (prepare_price_data (prepare_station_data df_gas df_pop))
        = set (map state_name (prepare_price_data (prepare_station_data df_gas df_pop)))"
    by simp
  also have "\<dots> = state_name ` set (prepare_station_data df_gas df_pop)"
    by (simp only: prepare_price_states set_map)
  finally show ?thesis using prepare_station_states [of df_gas df_pop] by simp
qed

section \<open>Properties\<close>

subsection \<open>Formatter\<close>

text \<open>
  C4. The formatter is claimed to render \<open>1_500_000_000\<close> as "1.5B liters",
  \<open>2_000_000\<close> as "2M liters" and \<open>1_000_000_000_000\<close> with the currency label as
  "$1T MXN". The source appends the magnitude letter before it strips, so the text ends in
  the letter, \<^verbatim>\<open>rstrip\<close> removes nothing, and the two decimals stay.
\<close>

theorem format_keeps_two_decimals:
  "format_volume 1500000000 True = ''1.50B liters''
   \<and> format_volume 2000000 True = ''2.00M liters''
   \<and> format_currency 1000000000000 True False = ''$1.00T MXN''"
  by code_simp

subsection \<open>Outlier filter on the five-price sample\<close>

text \<open>
  C6, as stated: on the prices 5, 20, 21, 22, 40 the effective bounds are 12 and 35. They
  are not: the 0.1th percentile of the sample is 5.06, below 12, and the 99.9th is 39.928,
  above 35.
\<close>

theorem five_prices_bounds_counterexample:
  "\<not> (effective_lower five_prices (1 / 10) 12 = Some 12
      \<and> effective_upper five_prices (999 / 10) 35 = Some 35)"
  by code_simp

text \<open>
  C6, amended: on the prices 5, 20, 21, 22, 40 the effective bounds are 5.06 and 39.928;
  5 and 40 become missing, and 20, 21 and 22 survive.
\<close>

theorem five_prices_filtered:
  "effective_lower five_prices (1 / 10) 12 = Some (253 / 50)
   \<and> effective_upper five_prices (999 / 10) 35 = Some (4991 / 125)
   \<and> map regular_price (remove_price_outliers_default five_stations RegularCol)
       = [None, Some 20, Some 21, Some 22, None]"
  by code_simp

subsection \<open>Outlier filter in general\<close>

text \<open>
  C3. For every station table and every price column, the cleaned column is the column
  coerced to numeric and filtered by the outlier policy of the specification
  (\<open>spec_clean_column\<close>), whatever the other two columns hold; no row is dropped and
  the id, state and municipality of every row are kept. When the column has a non-missing
  value, the bounds the source computes are min(0.1th percentile, 12) and
  max(99.9th percentile, 35).
\<close>

theorem price_cleaner_per_column:
  "map (get_price c) (prepare_price_data df)
     = spec_clean_column (map (\<lambda>r. to_numeric (get_price c r)) df)
   \<and> map place_id (prepare_price_data df) = map place_id df
   \<and> map state_name (prepare_price_data df) = map state_name df
   \<and> map municipality_name (prepare_price_data df) = map municipality_name df
   \<and> (let col = map (\<lambda>r. to_numeric (get_price c r)) df
      in dropna col \<noteq> [] \<longrightarrow>
           effective_lower col (1 / 10) 12
             = Some (min (interpolate (sort (dropna col)) (1 / 1000)) 12)
         \<and> effective_upper col (999 / 10) 35
             = Some (max (interpolate (sort (dropna col)) (999 / 1000)) 35))"
proof -
  have col: "map (get_price c) (prepare_price_data df)
     = spec_clean_column (map (\<lambda>r. to_numeric (get_price c r)) df)"
  proof -
    have "map (get_price c) (prepare_price_data df)
          = spec_clean_column (map (get_price c) (map coerce_prices df))"
      by (cases c)
        (simp_all add: prepare_price_data_def default_own_column default_other_column
          del: map_map)
    then show ?thesis by (simp only: coerce_column)
  qed
  have fields: "map place_id (prepare_price_data df) = map place_id df"
    "map state_name (prepare_price_data df) = map state_name df"
    "map municipality_name (prepare_price_data df) = map municipality_name df"
    by (simp_all add: prepare_price_data_def remove_price_outliers_default_def outliers_fields
        coerce_prices_def)
  show ?thesis
    using col fields by (simp add: Let_def effective_bounds_present)
qed

text \<open>
  A table of three rows: two regular prices inside the fixed range and a text that is not a
  number.
\<close>

theorem price_cleaner_per_column_witness:
  "map (get_price RegularCol) (prepare_price_data two_stations) = [Some 20, Some 25, None]
   \<and> effective_lower (map (\<lambda>r. to_numeric (get_price RegularCol r)) two_stations) (1 / 10) 12
       = Some 12
   \<and> effective_upper (map (\<lambda>r. to_numeric (get_price RegularCol r)) two_stations) (999 / 10) 35
       = Some 35"
proof -
  have h: "dropna (map (\<lambda>r. to_numeric (get_price RegularCol r)) two_stations) \<noteq> []"
    by code_simp
  have v: "spec_clean_column (map (\<lambda>r. to_numeric (get_price RegularCol r)) two_stations)
           = [Some 20, Some 25, None]"
    by code_simp
  have lo: "min (interpolate (sort (dropna (map (\<lambda>r. to_numeric (get_price RegularCol r)) two_stations))) (1 / 1000)) 12 = 12"
    by code_simp
  have hi: "max (interpolate (sort (dropna (map (\<lambda>r. to_numeric (get_price RegularCol r)) two_stations))) (999 / 1000)) 35 = 35"
    by code_simp
  show ?thesis
    using price_cleaner_per_column [of RegularCol two_stations] h v lo hi
    by (simp add: Let_def)
qed

text \<open>
  C7, as stated: when a price column is entirely missing, the effective bounds fall back
  to 12 and 35. They do not: the percentiles are NaN, Python's \<^verbatim>\<open>min(nan, 12)\<close> and
  \<^verbatim>\<open>max(nan, 35)\<close> return their first argument, and both bounds are NaN.
\<close>

theorem missing_column_bounds_counterexample:
  "\<not> (effective_lower (map regular_price missing_prices) (1 / 10) 12 = Some 12
      \<and> effective_upper (map regular_price missing_prices) (999 / 10) 35 = Some 35)"
  by code_simp

text \<open>
  C7, amended: when a price column is entirely missing, the outlier filter returns the
  table unchanged (no error), and both effective bounds are missing, so that no value
  compared against them would be accepted.
\<close>

theorem all_missing_column:
  assumes "\<forall>r \<in> set df. get_price c r = None"
  shows "effective_lower (map (get_price c) df) lp mn = None
       \<and> effective_upper (map (get_price c) df) up mx = None
       \<and> remove_price_outliers df c lp up mn mx = df"
proof -
  have "dropna (map (get_price c) df) = []"
    using assms by (simp add: dropna_Nil_iff)
  then have b: "effective_lower (map (get_price c) df) lp mn = None"
    "effective_upper (map (get_price c) df) up mx = None"
    by (rule effective_bounds_missing)+
  have "remove_price_outliers df c lp up mn mx = map (\<lambda>r. r) df"
    unfolding remove_price_outliers_def Let_def b
    using assms by (intro map_cong) (auto simp: price_mask_None set_price_same)
  then show ?thesis using b by simp
qed

text \<open>A table whose regular prices are all missing.\<close>

theorem all_missing_column_witness:
  "effective_lower (map (get_price RegularCol) missing_prices) (1 / 10) 12 = None
   \<and> effective_upper (map (get_price RegularCol) missing_prices) (999 / 10) 35 = None
   \<and> remove_price_outliers missing_prices RegularCol (1 / 10) (999 / 10) 12 35 = missing_prices"
proof -
  have h: "\<forall>r \<in> set missing_prices. get_price RegularCol r = None"
    by (simp add: missing_prices_def price_row_def)
  show ?thesis by (rule all_missing_column [OF h])
qed

subsection \<open>Stations per state\<close>



subsection \<open>Average prices of groups without a seller\<close>

text \<open>
  C1, as stated: a group with no station selling a fuel is never shown with the average
  price 0. In the state tables it is: no station of the sample sells premium and Tlaxcala
  has no station at all; the premium table shows 0 for every state and the regular table
  shows 0 for Tlaxcala.
\<close>

theorem state_average_zero_counterexample:
  "display_state_price sample_prices three_states PremiumCol
     = [(''Colima'', 0), (''Nayarit'', 0), (''Tlaxcala'', 0)]
   \<and> display_state_price sample_prices three_states RegularCol
     = [(''Colima'', 20), (''Nayarit'', 22), (''Tlaxcala'', 0)]"
  by code_simp

text \<open>
  C1, amended: in the state tables (average price and deviation) a state of the roster
  with no station selling the fuel has the average price 0, and its deviation is 0 minus
  the national average; in the municipality tables a group with no station selling the
  fuel has a missing average price and a missing deviation.
\<close>

theorem no_seller_state_shows_zero:
  "(\<forall>s \<in> entidad_federativa ` set df_pop.
      (\<forall>r \<in> set df_price. state_name r = s \<longrightarrow> get_price fuel r = None) \<longrightarrow>
        (s, 0) \<in> set (display_state_price df_price df_pop fuel)
      \<and> \<lparr>dev_state = s, average_price = 0,
          price_deviation = nan_sub (Some 0) (national_avg df_price fuel)\<rparr>
          \<in> set (display_state_price_deviation df_price df_pop fuel))
   \<and> (\<forall>row \<in> set (display_municipality_price df_price fuel).
        (\<forall>r \<in> set df_price. mun_key r = Some (mun_name row, mun_state row) \<longrightarrow> get_price fuel r = None) \<longrightarrow>
          mun_average_price row = None \<and> mun_price_deviation row = None)"
proof -
  have st: "fillna0 (mean (map (get_price fuel) (filter (\<lambda>r. state_name r = s) df_price))) = 0"
    if "\<forall>r \<in> set df_price. state_name r = s \<longrightarrow> get_price fuel r = None" for s
  proof -
    have "mean (map (get_price fuel) (filter (\<lambda>r. state_name r = s) df_price)) = None"
      using that by (intro mean_all_missing) auto
    then show ?thesis by simp
  qed
  have mu: "mean (map (get_price fuel) (filter (\<lambda>r. mun_key r = Some k) df_price)) = None"
    if "\<forall>r \<in> set df_price. mun_key r = Some k \<longrightarrow> get_price fuel r = None" for k
    using that by (intro mean_all_missing) auto
  have a: "(s, 0) \<in> set (display_state_price df_price df_pop fuel)"
    if "s \<in> entidad_federativa ` set df_pop"
      "\<forall>r \<in> set df_price. state_name r = s \<longrightarrow> get_price fuel r = None" for s
    unfolding display_state_price_rows using that(1) st [OF that(2)]
    by (auto simp: unique_set image_iff intro!: bexI)
  have b: "\<lparr>dev_state = s, average_price = 0,
          price_deviation = nan_sub (Some 0) (national_avg df_price fuel)\<rparr>
          \<in> set (display_state_price_deviation df_price df_pop fuel)"
    if "s \<in> entidad_federativa ` set df_pop"
      "\<forall>r \<in> set df_price. state_name r = s \<longrightarrow> get_price fuel r = None" for s
    unfolding display_state_price_deviation_rows using that(1) st [OF that(2)]
    by (auto simp: unique_set image_iff intro!: bexI)
  have c: "mun_average_price row = None \<and> mun_price_deviation row = None"
    if "row \<in> set (display_municipality_price df_price fuel)"
      "\<forall>r \<in> set df_price. mun_key r = Some (mun_name row, mun_state row) \<longrightarrow> get_price fuel r = None"
    for row
  proof -
    from that(1) obtain k where
      row: "row = \<lparr>mun_name = fst k, mun_state = snd k,
              mun_average_price = mean (map (get_price fuel) (filter (\<lambda>r. mun_key r = Some k) df_price)),
              mun_price_deviation =
                nan_sub (mean (map (get_price fuel) (filter (\<lambda>r. mun_key r = Some k) df_price)))
                  (national_avg df_price fuel)\<rparr>"
      by (auto simp: display_municipality_price_def Let_def)
    have "mean (map (get_price fuel) (filter (\<lambda>r. mun_key r = Some k) df_price)) = None"
      using that(2) by (intro mu) (simp add: row)
    then show ?thesis by (simp add: row)
  qed
  show ?thesis using a b c by blast
qed

text \<open>Tlaxcala has no station: its regular average is 0 and its deviation 0 - 21.\<close>

theorem no_seller_state_shows_zero_witness:
  "(''Tlaxcala'', 0) \<in> set (display_state_price sample_prices three_states RegularCol)
   \<and> \<lparr>dev_state = ''Tlaxcala'', average_price = 0, price_deviation = Some (- 21)\<rparr>
       \<in> set (display_state_price_deviation sample_prices three_states RegularCol)"
proof -
  have m: "''Tlaxcala'' \<in> entidad_federativa ` set three_states"
    by (simp add: three_states_def pop_def)
  have z: "\<forall>r \<in> set sample_prices. state_name r = ''Tlaxcala'' \<longrightarrow> get_price RegularCol r = None"
    by (simp add: sample_prices_def price_row_def)
  have a: "nan_sub (Some 0) (national_avg sample_prices RegularCol) = Some (- 21)"
    by code_simp
  show ?thesis
    using no_seller_state_shows_zero [of three_states sample_prices RegularCol] m z a by auto
qed

subsection \<open>Volume per station and per capita\<close>

text \<open>
  C10. In the volume-per-station table, a state whose station count is zero has the
  average volume 0; the average is always a finite number, never missing or infinite; the
  station count is the number of distinct station ids of the state's rows.
\<close>

theorem volume_per_station_zero:
  "\<forall>row \<in> set (merged_state_vol df_volume df_station).
      (count_stations row = 0 \<longrightarrow> avg_volume_per_station row = Fin 0)
    \<and> (\<exists>x. avg_volume_per_station row = Fin x)
    \<and> count_stations row
        = nunique (map place_id (filter (\<lambda>r. state_name r = ps_state row) df_station))"
  unfolding merged_state_vol_rows by (auto simp: Let_def)

text \<open>Colima sold 1000 liters in 2024 and has no station: its average is 0.\<close>

theorem volume_per_station_zero_witness:
  "count_stations (hd (merged_state_vol sample_volume nayarit_station)) = 0
   \<and> ps_state (hd (merged_state_vol sample_volume nayarit_station)) = ''Colima''
   \<and> avg_volume_per_station (hd (merged_state_vol sample_volume nayarit_station)) = Fin 0"
proof -
  have m: "hd (merged_state_vol sample_volume nayarit_station)
           \<in> set (merged_state_vol sample_volume nayarit_station)"
    by code_simp
  have c: "count_stations (hd (merged_state_vol sample_volume nayarit_station)) = 0"
    by code_simp
  have s: "ps_state (hd (merged_state_vol sample_volume nayarit_station)) = ''Colima''"
    by code_simp
  show ?thesis
    using bspec [OF volume_per_station_zero m] c s by simp
qed

text \<open>
  C2, as stated: a state whose population is zero has a missing volume per capita, never
  an infinite one. Colima, with 1000 liters sold in 2024 and population 0, gets infinity.
\<close>

theorem zero_population_counterexample:
  "map volume_per_capita (per_capita_data sample_volume colima_empty) = [PInf, NaN]"
  by code_simp

text \<open>
  C2, amended: the table has, for every state with a volume row of 2024, one row for each
  population row of the state, and one row when the state has no population row; its
  volume is the state's total of 2024. A state whose population is missing (no row in the
  population table, or a cell that is not a number) has a missing volume per capita; a
  state whose population is zero has plus or minus infinity when its volume is positive or
  negative, and a missing value only when its volume is zero too; any other population
  gives the quotient. The table has no other rows, and the function is total: no input
  makes it fail.
\<close>

theorem volume_per_capita_rows:
  "(\<forall>row \<in> set (per_capita_data df_volume df_pop).
      (pc_population row = None \<longrightarrow> volume_per_capita row = NaN)
    \<and> (pc_population row = Some 0 \<longrightarrow>
         volume_per_capita row
           = (if 0 < pc_volume row then PInf else if pc_volume row < 0 then NInf else NaN))
    \<and> (pc_state row \<notin> entidad_federativa ` set df_pop \<longrightarrow> pc_population row = None)
    \<and> pc_state row \<in> vol_entidad ` set (df_volume_agg df_volume)
    \<and> pc_volume row
        = series_sum (map volumen_vendido
            (filter (\<lambda>r. vol_entidad r = pc_state row) (df_volume_agg df_volume)))
    \<and> volume_per_capita row = fdiv (Some (pc_volume row)) (pc_population row)
    \<and> (pc_state row \<in> entidad_federativa ` set df_pop \<longrightarrow>
         (\<exists>p \<in> set df_pop. entidad_federativa p = pc_state row
            \<and> pc_population row = to_numeric (population_2024 p))))
   \<and> (\<forall>s \<in> vol_entidad ` set (df_volume_agg df_volume).
        (\<forall>p \<in> set df_pop. entidad_federativa p = s \<longrightarrow>
           \<lparr>pc_state = s,
            pc_volume = series_sum (map volumen_vendido
                          (filter (\<lambda>r. vol_entidad r = s) (df_volume_agg df_volume))),
            pc_population = to_numeric (population_2024 p),
            volume_per_capita =
              (case to_numeric (population_2024 p) of
                 None \<Rightarrow> NaN
               | Some n \<Rightarrow>
                   let v = series_sum (map volumen_vendido
                             (filter (\<lambda>r. vol_entidad r = s) (df_volume_agg df_volume)))
                   in if n \<noteq> 0 then Fin (v / n)
                      else if 0 < v then PInf else if v < 0 then NInf else NaN)\<rparr>
           \<in> set (per_capita_data df_volume df_pop))
      \<and> (s \<notin> entidad_federativa ` set df_pop \<longrightarrow>
           \<lparr>pc_state = s,
            pc_volume = series_sum (map volumen_vendido
                          (filter (\<lambda>r. vol_entidad r = s) (df_volume_agg df_volume))),
            pc_population = None, volume_per_capita = NaN\<rparr>
           \<in> set (per_capita_data df_volume df_pop)))"
proof -
  let ?agg = "df_volume_agg df_volume"
  let ?V = "\<lambda>s. series_sum (map volumen_vendido (filter (\<lambda>r. vol_entidad r = s) ?agg))"
  let ?M = "merge_left fst (vol_by_state ?agg) (df_pop_clean df_pop)"
  let ?T = "per_capita_data df_volume df_pop"
  have rows: "(pc_population row = None \<longrightarrow> volume_per_capita row = NaN)
    \<and> (pc_population row = Some 0 \<longrightarrow>
         volume_per_capita row
           = (if 0 < pc_volume row then PInf else if pc_volume row < 0 then NInf else NaN))
    \<and> (pc_state row \<notin> entidad_federativa ` set df_pop \<longrightarrow> pc_population row = None)
    \<and> pc_state row \<in> vol_entidad ` set ?agg
    \<and> pc_volume row = ?V (pc_state row)
    \<and> volume_per_capita row = fdiv (Some (pc_volume row)) (pc_population row)
    \<and> (pc_state row \<in> entidad_federativa ` set df_pop \<longrightarrow>
         (\<exists>p \<in> set df_pop. entidad_federativa p = pc_state row
            \<and> pc_population row = to_numeric (population_2024 p)))"
    if "row \<in> set ?T" for row
  proof -
    from that obtain s v p where m: "((s, v), p) \<in> set ?M"
      and row: "row = \<lparr>pc_state = s, pc_volume = v, pc_population = flatten p,
                       volume_per_capita = fdiv (Some v) (flatten p)\<rparr>"
      unfolding per_capita_data_set by auto
    from merge_left_member(1) [OF m] have sv: "s \<in> vol_entidad ` set ?agg" "v = ?V s"
      unfolding vol_by_state_set by auto
    have none: "p = None" if "s \<notin> entidad_federativa ` set df_pop"
      using merge_left_member(3) [OF m] that by (cases p) (auto simp: df_pop_clean_def image_iff)
    have some: "\<exists>q \<in> set df_pop. entidad_federativa q = s \<and> flatten p = to_numeric (population_2024 q)"
      if "s \<in> entidad_federativa ` set df_pop"
    proof (cases p)
      case None
      with merge_left_member(2) [OF m] that show ?thesis
        by (auto simp: df_pop_clean_def image_iff)
    next
      case (Some x)
      with merge_left_member(3) [OF m] show ?thesis
        by (auto simp: df_pop_clean_def)
    qed
    show ?thesis using sv none some by (auto simp: row)
  qed
  have matched: "\<lparr>pc_state = s, pc_volume = ?V s,
            pc_population = to_numeric (population_2024 p),
            volume_per_capita =
              (case to_numeric (population_2024 p) of
                 None \<Rightarrow> NaN
               | Some n \<Rightarrow>
                   let v = ?V s
                   in if n \<noteq> 0 then Fin (v / n)
                      else if 0 < v then PInf else if v < 0 then NInf else NaN)\<rparr> \<in> set ?T"
    if s: "s \<in> vol_entidad ` set ?agg" and p: "p \<in> set df_pop" "entidad_federativa p = s"
    for s p
  proof -
    have l: "(s, ?V s) \<in> set (vol_by_state ?agg)"
      using s unfolding vol_by_state_set by auto
    have r: "(fst (s, ?V s), to_numeric (population_2024 p)) \<in> set (df_pop_clean df_pop)"
      using p by (auto simp: df_pop_clean_def)
    have "((s, ?V s), Some (to_numeric (population_2024 p))) \<in> set ?M"
      by (rule merge_left_matched [where key = fst, OF l r])
    then have "\<lparr>pc_state = s, pc_volume = ?V s,
                pc_population = to_numeric (population_2024 p),
                volume_per_capita = fdiv (Some (?V s)) (to_numeric (population_2024 p))\<rparr> \<in> set ?T"
      unfolding per_capita_data_set by force
    moreover have "fdiv (Some (?V s)) (to_numeric (population_2024 p))
        = (case to_numeric (population_2024 p) of
                 None \<Rightarrow> NaN
               | Some n \<Rightarrow>
                   let v = ?V s
                   in if n \<noteq> 0 then Fin (v / n)
                      else if 0 < v then PInf else if v < 0 then NInf else NaN)"
      by (cases "to_numeric (population_2024 p)") (simp_all add: Let_def)
    ultimately show ?thesis by simp
  qed
  have unmatched: "\<lparr>pc_state = s, pc_volume = ?V s, pc_population = None,
                    volume_per_capita = NaN\<rparr> \<in> set ?T"
    if s: "s \<in> vol_entidad ` set ?agg" and n: "s \<notin> entidad_federativa ` set df_pop" for s
  proof -
    have l: "(s, ?V s) \<in> set (vol_by_state ?agg)"
      using s unfolding vol_by_state_set by auto
    have r: "fst (s, ?V s) \<notin> fst ` set (df_pop_clean df_pop)"
      using n by (auto simp: df_pop_clean_def image_iff)
    have "((s, ?V s), None) \<in> set ?M"
      by (rule merge_left_unmatched [where key = fst, OF l r])
    then show ?thesis unfolding per_capita_data_set by force
  qed
  show ?thesis
    using rows matched unmatched by blast
qed


text \<open>
  Colima has population 0 and an infinite result, Nayarit has no population row and a
  missing one; with a population cell that is not a number Colima has a missing one.
\<close>

theorem volume_per_capita_rows_witness:
  "\<lparr>pc_state = ''Colima'', pc_volume = 1000, pc_population = Some 0,
    volume_per_capita = PInf\<rparr> \<in> set (per_capita_data sample_volume colima_empty)
   \<and> \<lparr>pc_state = ''Nayarit'', pc_volume = 500, pc_population = None,
      volume_per_capita = NaN\<rparr> \<in> set (per_capita_data sample_volume colima_empty)
   \<and> \<lparr>pc_state = ''Colima'', pc_volume = 1000, pc_population = None,
      volume_per_capita = NaN\<rparr> \<in> set (per_capita_data sample_volume colima_unreadable)"
proof -
  have s: "''Colima'' \<in> vol_entidad ` set (df_volume_agg sample_volume)"
    "''Nayarit'' \<in> vol_entidad ` set (df_volume_agg sample_volume)"
    by (simp_all add: df_volume_agg_def sample_volume_def vol_def)
  have v: "series_sum (map volumen_vendido
             (filter (\<lambda>r. vol_entidad r = ''Colima'') (df_volume_agg sample_volume))) = 1000"
    "series_sum (map volumen_vendido
             (filter (\<lambda>r. vol_entidad r = ''Nayarit'') (df_volume_agg sample_volume))) = 500"
    by code_simp+
  have p: "pop ''Colima'' (Num 0) \<in> set colima_empty"
    "entidad_federativa (pop ''Colima'' (Num 0)) = ''Colima''"
    "to_numeric (population_2024 (pop ''Colima'' (Num 0))) = Some 0"
    "''Nayarit'' \<notin> entidad_federativa ` set colima_empty"
    by (simp_all add: colima_empty_def pop_def)
  have q: "pop ''Colima'' (Str ''n/d'') \<in> set colima_unreadable"
    "entidad_federativa (pop ''Colima'' (Str ''n/d'')) = ''Colima''"
    "to_numeric (population_2024 (pop ''Colima'' (Str ''n/d''))) = None"
    by (simp_all add: colima_unreadable_def pop_def)
  note zero = volume_per_capita_rows [of sample_volume colima_empty, THEN conjunct2, THEN bspec]
  note unreadable = volume_per_capita_rows [of sample_volume colima_unreadable, THEN conjunct2, THEN bspec]
  have a: "\<lparr>pc_state = ''Colima'', pc_volume = 1000, pc_population = Some 0,
    volume_per_capita = PInf\<rparr> \<in> set (per_capita_data sample_volume colima_empty)"
    using zero [OF s(1), THEN conjunct1, THEN bspec, OF p(1)] p(2,3) v(1) by (simp add: Let_def)
  have b: "\<lparr>pc_state = ''Nayarit'', pc_volume = 500, pc_population = None,
      volume_per_capita = NaN\<rparr> \<in> set (per_capita_data sample_volume colima_empty)"
    using zero [OF s(2), THEN conjunct2] p(4) v(2) by simp
  have c: "\<lparr>pc_state = ''Colima'', pc_volume = 1000, pc_population = None,
      volume_per_capita = NaN\<rparr> \<in> set (per_capita_data sample_volume colima_unreadable)"
    using unreadable [OF s(1), THEN conjunct1, THEN bspec, OF q(1)] q(2,3) v(1) by simp
  show ?thesis using a b c by simp
qed

subsection \<open>Deviations from the national average\<close>

text \<open>
  C8, as stated: the deviations of the groups, weighted by each group's station count, sum
  to zero. With the station count of \<open>stations_per_state\<close> they do not: Colima has two
  stations, one of which sells no regular, the national regular average is 21, and the
  weighted sum is 2 * (20 - 21) + 1 * (22 - 21) + 0 * (0 - 21) = -1.
\<close>

theorem station_count_weights_counterexample:
  "national_avg sample_prices RegularCol = Some 21
   \<and> weighted_deviation_sum (num_stations sample_prices) 21
       (display_state_price_deviation sample_prices three_states RegularCol) = - 1"
  by code_simp

text \<open>
  C8, amended: when at least one station sells the fuel and every state of the price table
  is in the roster (as it is for the output of the Reconciler, \<open>pipeline_states_in_roster\<close>),
  the deviations of the state deviation table, each weighted by the number of the state's
  stations that sell the fuel, sum to zero; the deviation of every row is its average price
  minus the national average, the mean over all stations selling the fuel.
\<close>

theorem weighted_deviations_cancel:
  assumes roster: "state_name ` set df_price \<subseteq> entidad_federativa ` set df_pop"
    and avg: "national_avg df_price fuel = Some avg"
  shows "weighted_deviation_sum (selling_count df_price fuel) avg
           (display_state_price_deviation df_price df_pop fuel) = 0
       \<and> map price_deviation (display_state_price_deviation df_price df_pop fuel)
           = map (\<lambda>row. Some (average_price row - avg))
               (display_state_price_deviation df_price df_pop fuel)"
proof -
  let ?S = "unique (map entidad_federativa df_pop)"
  let ?g = "get_price fuel"
  let ?col = "\<lambda>s. map ?g (filter (\<lambda>r. state_name r = s) df_price)"
  have S: "distinct ?S" "state_name ` set df_price \<subseteq> set ?S"
    using roster by (simp_all add: unique_distinct unique_set)
  have summand: "of_nat (length (dropna (?col s))) * (fillna0 (mean (?col s)) - avg)
        = sum_list (dropna (?col s)) - of_nat (length (dropna (?col s))) * avg" for s
    by (simp add: right_diff_distrib count_times_mean)
  have "weighted_deviation_sum (selling_count df_price fuel) avg
           (display_state_price_deviation df_price df_pop fuel)
        = sum_list (map (\<lambda>s. sum_list (dropna (?col s)) - of_nat (length (dropna (?col s))) * avg) ?S)"
    by (simp add: weighted_deviation_sum_def display_state_price_deviation_rows selling_count_def
        comp_def summand)
  also have "\<dots> = sum_list (map (\<lambda>s. sum_list (dropna (?col s))) ?S)
                 - sum_list (map (\<lambda>s. of_nat (length (dropna (?col s)))) ?S) * avg"
    by (simp add: sum_list_subtractf sum_list_mult_const)
  also have "sum_list (map (\<lambda>s. sum_list (dropna (?col s))) ?S) = sum_list (dropna (map ?g df_price))"
    unfolding sum_dropna by (rule partition_sum [OF S])
  also have "sum_list (map (\<lambda>s. of_nat (length (dropna (?col s)))) ?S)
             = (of_nat (length (dropna (map ?g df_price))) :: rat)"
    unfolding length_dropna by (rule partition_sum [OF S])
  also have "sum_list (dropna (map ?g df_price)) - of_nat (length (dropna (map ?g df_price))) * avg = 0"
    using mean_Some_total [of "map ?g df_price" avg] avg by (simp add: national_avg_def)
  finally have zero: "weighted_deviation_sum (selling_count df_price fuel) avg
           (display_state_price_deviation df_price df_pop fuel) = 0" .
  have dev: "map price_deviation (display_state_price_deviation df_price df_pop fuel)
           = map (\<lambda>row. Some (average_price row - avg))
               (display_state_price_deviation df_price df_pop fuel)"
    by (simp add: display_state_price_deviation_rows avg comp_def)
  show ?thesis using zero dev by simp
qed

text \<open>The sample again, weighted by the stations that sell regular: 1, 1 and 0.\<close>

theorem weighted_deviations_cancel_witness:
  "weighted_deviation_sum (selling_count sample_prices RegularCol) 21
     (display_state_price_deviation sample_prices three_states RegularCol) = 0
   \<and> map price_deviation (display_state_price_deviation sample_prices three_states RegularCol)
       = [Some (- 1), Some 1, Some (- 21)]"
proof -
  have r: "state_name ` set sample_prices \<subseteq> entidad_federativa ` set three_states"
    by (simp add: sample_prices_def three_states_def price_row_def pop_def)
  have a: "national_avg sample_prices RegularCol = Some 21"
    by code_simp
  have d: "map (\<lambda>row. Some (average_price row - 21))
             (display_state_price_deviation sample_prices three_states RegularCol)
           = [Some (- 1), Some 1, Some (- 21)]"
    by code_simp
  show ?thesis
    using weighted_deviations_cancel [OF r a] d by simp
qed

subsection \<open>Station Reconciler\<close>

text \<open>
  C9, as stated: the Reconciler applied to its own output returns that output. It does not
  when a station row has no id: the placeholder row of Colima, which has no id either,
  comes first in the output, and the second run drops the station of Nayarit as its
  duplicate.
\<close>

theorem reconciler_twice_counterexample:
  "prepare_station_data (prepare_station_data station_without_id two_states) two_states
   \<noteq> prepare_station_data station_without_id two_states"
  by code_simp

text \<open>
  C9, amended: when every station row of the input has a station id, the Reconciler
  applied to its own output returns that output. Deduplication keeps exactly one row for
  every station id of the input, the first row of the input with that id, and the kept
  rows are in the order in which their ids first appear.
\<close>

theorem reconciler_idempotent:
  assumes "\<forall>r \<in> set df_gas. place_id r \<noteq> None"
  shows "prepare_station_data (prepare_station_data df_gas df_pop) df_pop
           = prepare_station_data df_gas df_pop
       \<and> distinct (map place_id (drop_duplicates df_gas))
       \<and> (\<forall>r \<in> set (drop_duplicates df_gas).
            find (\<lambda>r'. place_id r' = place_id r) df_gas = Some r)
       \<and> place_id ` set (drop_duplicates df_gas) = place_id ` set df_gas
       \<and> map place_id (drop_duplicates df_gas) = unique (map place_id df_gas)"
proof -
  have "prepare_station_data (prepare_station_data df_gas df_pop) df_pop
           = prepare_station_data df_gas df_pop"
    unfolding prepare_station_data_def Let_def
    by (rule merge_states_dedup)
      (simp_all add: unique_distinct drop_duplicates_distinct dedup_ids_present [OF assms, rule_format])
  moreover have "\<forall>r \<in> set (drop_duplicates df_gas).
            find (\<lambda>r'. place_id r' = place_id r) df_gas = Some r"
    by (auto simp: drop_duplicates_def dest: dedup_first)
  ultimately show ?thesis
    using drop_duplicates_id_set [of df_gas] drop_duplicates_ids [of df_gas]
    by (simp add: unique_distinct)
qed

text \<open>
  Three rows for two stations: the first row of station p1 is kept, and a second run
  changes nothing.
\<close>

theorem reconciler_idempotent_witness:
  "prepare_station_data (prepare_station_data two_stations two_states) two_states
     = prepare_station_data two_stations two_states
   \<and> map regular_price (prepare_station_data two_stations two_states)
       = [Missing, Num 20, Str ''n/d'']
   \<and> map place_id (drop_duplicates two_stations) = [Some ''p1'', Some ''p2'']"
proof -
  have h: "\<forall>r \<in> set two_stations. place_id r \<noteq> None"
    by (simp add: two_stations_def gas_row_def)
  have v: "map regular_price (prepare_station_data two_stations two_states)
           = [Missing, Num 20, Str ''n/d'']"
    by code_simp
  have u: "unique (map place_id two_stations) = [Some ''p1'', Some ''p2'']"
    by code_simp
  show ?thesis
    using reconciler_idempotent [OF h, of two_states] v u by simp
qed


end
